theory Spec2Isabelle
  imports Main "HOL-Library.Word"
begin

unbundle bit_operations_syntax

section \<open>Machine state\<close>

text \<open>
  \<^verbatim>\<open>vmcs_n::value_type\<close> is a 64-bit unsigned integer. The handlers reach the machine in
  two ways: through the \<^verbatim>\<open>vmcs_n::\<close> field accessors (the VMCS of the running virtual CPU)
  and through the \<^verbatim>\<open>vmcs_t *\<close> argument (the register save state). Both are gathered in
  one record; registered delegates receive it and may change any part of it. The record
  is used through its extensible scheme, so that a delegate may own further state.
\<close>

type_synonym value_type = "64 word"

record vmcs_t =
  pin_based_vm_execution_controls :: value_type
  vm_exit_controls :: value_type
  vm_exit_interruption_information :: value_type
  vm_exit_instruction_length :: value_type
  exit_qualification_gpr :: "4 word"
  gr :: "4 word \<Rightarrow> value_type"
  guest_rip :: value_type
  guest_cr0 :: value_type
  guest_cr3 :: value_type
  guest_cr4 :: value_type
  cr0_read_shadow :: value_type
  cr4_read_shadow :: value_type

subsection \<open>Field accessors used by the external interrupt handler\<close>

text \<open>
  Modelled from the spec: the \<^verbatim>\<open>vmcs_n\<close> accessors
  \<^verbatim>\<open>pin_based_vm_execution_controls::external_interrupt_exiting\<close> and
  \<^verbatim>\<open>vm_exit_controls::acknowledge_interrupt_on_exit\<close> are not under src/. The spec
  gives them get/set semantics with no partial failure: each is one control bit of its
  field, \<^verbatim>\<open>enable\<close> sets it, \<^verbatim>\<open>disable\<close> clears it, \<^verbatim>\<open>is_enabled\<close> reads it. The
  bit positions (0 and 15) are the architectural ones; no theorem depends on them.
\<close>

definition external_interrupt_exiting_from :: nat where
  "external_interrupt_exiting_from = 0"

definition acknowledge_interrupt_on_exit_from :: nat where
  "acknowledge_interrupt_on_exit_from = 15"

definition external_interrupt_exiting_enable :: "'a vmcs_t_scheme \<Rightarrow> 'a vmcs_t_scheme" where
  "external_interrupt_exiting_enable v =
     v\<lparr>pin_based_vm_execution_controls :=
         set_bit external_interrupt_exiting_from (pin_based_vm_execution_controls v)\<rparr>"

definition external_interrupt_exiting_disable :: "'a vmcs_t_scheme \<Rightarrow> 'a vmcs_t_scheme" where
  "external_interrupt_exiting_disable v =
     v\<lparr>pin_based_vm_execution_controls :=
         unset_bit external_interrupt_exiting_from (pin_based_vm_execution_controls v)\<rparr>"

definition external_interrupt_exiting_is_enabled :: "'a vmcs_t_scheme \<Rightarrow> bool" where
  "external_interrupt_exiting_is_enabled v =
     bit (pin_based_vm_execution_controls v) external_interrupt_exiting_from"

definition acknowledge_interrupt_on_exit_enable :: "'a vmcs_t_scheme \<Rightarrow> 'a vmcs_t_scheme" where
  "acknowledge_interrupt_on_exit_enable v =
     v\<lparr>vm_exit_controls := set_bit acknowledge_interrupt_on_exit_from (vm_exit_controls v)\<rparr>"

definition acknowledge_interrupt_on_exit_disable :: "'a vmcs_t_scheme \<Rightarrow> 'a vmcs_t_scheme" where
  "acknowledge_interrupt_on_exit_disable v =
     v\<lparr>vm_exit_controls := unset_bit acknowledge_interrupt_on_exit_from (vm_exit_controls v)\<rparr>"

definition acknowledge_interrupt_on_exit_is_enabled :: "'a vmcs_t_scheme \<Rightarrow> bool" where
  "acknowledge_interrupt_on_exit_is_enabled v =
     bit (vm_exit_controls v) acknowledge_interrupt_on_exit_from"

text \<open>
  Modelled from the spec: the accessor \<^verbatim>\<open>vm_exit_interruption_information::vector::get\<close>
  is not under src/. The spec has one counter per interrupt vector in a table indexed
  0 to 255 and reads the vector from the exit interruption-information field: the vector
  is the low eight bits of that field.
\<close>

definition vector_get :: "'a vmcs_t_scheme \<Rightarrow> value_type" where
  "vector_get v = vm_exit_interruption_information v AND 0xFF"

section \<open>Handler chains\<close>

text \<open>
  A delegate \<^verbatim>\<open>delegate<bool(gsl::not_null<vmcs_t *>, info_t &)>\<close> is called with the
  machine and a reference to the exit descriptor; it returns its verdict and leaves both
  possibly changed. Delegates act on the machine and on the descriptor only, not on the
  handler object that owns the chain.
\<close>

type_synonym ('v, 'i) handler_delegate_t = "'v \<Rightarrow> 'i \<Rightarrow> bool \<times> 'v \<times> 'i"

text \<open>
  One entry of the call record of a dispatch: the delegate that was called, the
  descriptor it was handed, and what it returned. The call record is a ghost value: it
  is written by the loop below at the point where the source calls \<^verbatim>\<open>d(vmcs, info)\<close>
  and read by nothing in the model.
\<close>

type_synonym ('v, 'i) call = "('v, 'i) handler_delegate_t \<times> 'i \<times> bool"

text \<open>
  The loop
  \<^verbatim>\<open>for (const auto &d : m_handlers) { if (d(vmcs, info)) { return true; } }\<close>
  over a \<^verbatim>\<open>std::list\<close>, front to back. The result is whether some delegate claimed the
  exit, the machine and the descriptor as the called delegates left them, and the call
  record, first call first.
\<close>

fun dispatch ::
  "('v, 'i) handler_delegate_t list \<Rightarrow> 'v \<Rightarrow> 'i \<Rightarrow> bool \<times> 'v \<times> 'i \<times> ('v, 'i) call list"
where
  "dispatch [] vmcs info = (False, vmcs, info, [])"
| "dispatch (d # ds) vmcs info =
     (case d vmcs info of
        (True, vmcs', info') \<Rightarrow> (True, vmcs', info', [(d, info, True)])
      | (False, vmcs', info') \<Rightarrow>
          (case dispatch ds vmcs' info' of
             (claimed, vmcs'', info'', calls) \<Rightarrow>
               (claimed, vmcs'', info'', (d, info, False) # calls)))"

section \<open>External interrupt handler\<close>

datatype exn =
  Out_of_range
| Unhandled_interrupt_vector value_type

text \<open>
  \<^verbatim>\<open>Out_of_range\<close> is the \<^verbatim>\<open>std::out_of_range\<close> of a checked \<^verbatim>\<open>at\<close>;
  \<^verbatim>\<open>Unhandled_interrupt_vector v\<close> is the \<^verbatim>\<open>std::runtime_error\<close> thrown at the end of
  \<^verbatim>\<open>handle\<close>, whose message is "Unhandled interrupt vector: " followed by \<open>v\<close>.
\<close>

record info_t =
  vector :: value_type

record 'v external_interrupt_handler =
  m_handlers :: "('v, info_t) handler_delegate_t list"
  m_log :: "value_type list"
  m_log_enabled :: bool

text \<open>
  Modelled from the spec: the class declaration (external_interrupt.h) is not under
  src/. The counter table is a fixed-size table of 256 counters; a new handler object
  has an empty chain, all counters zero and logging off. The vector of \<^verbatim>\<open>info_t\<close> and
  the counters are taken to be 64-bit unsigned integers; \<^verbatim>\<open>enable_log\<close> turns logging on.
\<close>

definition external_interrupt_handler_init :: "'v external_interrupt_handler" where
  "external_interrupt_handler_init =
     \<lparr>m_handlers = [], m_log = replicate 256 0, m_log_enabled = False\<rparr>"

definition enable_log :: "'v external_interrupt_handler \<Rightarrow> 'v external_interrupt_handler" where
  "enable_log s = s\<lparr>m_log_enabled := True\<rparr>"

definition add_handler ::
  "('v, info_t) handler_delegate_t \<Rightarrow> 'v external_interrupt_handler \<Rightarrow> 'v external_interrupt_handler"
where
  "add_handler d s = s\<lparr>m_handlers := d # m_handlers s\<rparr>"

definition enable_exiting :: "'a vmcs_t_scheme \<Rightarrow> 'a vmcs_t_scheme" where
  "enable_exiting v =
     acknowledge_interrupt_on_exit_enable (external_interrupt_exiting_enable v)"

definition disable_exiting :: "'a vmcs_t_scheme \<Rightarrow> 'a vmcs_t_scheme" where
  "disable_exiting v =
     acknowledge_interrupt_on_exit_disable (external_interrupt_exiting_disable v)"

text \<open>\<^verbatim>\<open>std::array::at\<close>: a checked read.\<close>

definition at :: "'a list \<Rightarrow> nat \<Rightarrow> exn + 'a" where
  "at xs n = (if n < length xs then Inr (xs ! n) else Inl Out_of_range)"

text \<open>\<^verbatim>\<open>m_log.at(n)++\<close>: a checked access, then an increment that wraps at \<open>2 ^ 64\<close>.\<close>

definition at_incr :: "value_type list \<Rightarrow> nat \<Rightarrow> exn + value_type list" where
  "at_incr xs n = (case at xs n of Inl e \<Rightarrow> Inl e | Inr c \<Rightarrow> Inr (xs[n := c + 1]))"

text \<open>
  \<^verbatim>\<open>external_interrupt_handler::handle\<close>. The build constant \<^verbatim>\<open>ndebug\<close> is a parameter.
  The outcome is the exception thrown or the value returned, together with the handler
  object, the machine and the call record as they are when \<^verbatim>\<open>handle\<close> is left.
\<close>

definition handle ::
  "bool \<Rightarrow> 'a vmcs_t_scheme external_interrupt_handler \<Rightarrow> 'a vmcs_t_scheme \<Rightarrow>
   (exn + bool) \<times> 'a vmcs_t_scheme external_interrupt_handler \<times> 'a vmcs_t_scheme \<times>
   ('a vmcs_t_scheme, info_t) call list"
where
  "handle ndebug s vmcs =
     (let info = \<lparr>vector = vector_get vmcs\<rparr> in
      case (if \<not> ndebug \<and> m_log_enabled s
            then at_incr (m_log s) (unat (vector info)) else Inr (m_log s)) of
        Inl e \<Rightarrow> (Inl e, s, vmcs, [])
      | Inr log' \<Rightarrow>
          (let s' = s\<lparr>m_log := log'\<rparr> in
           case dispatch (m_handlers s') vmcs info of
             (True, vmcs', info', calls) \<Rightarrow> (Inr True, s', vmcs', calls)
           | (False, vmcs', info', calls) \<Rightarrow>
               (Inl (Unhandled_interrupt_vector (vector info')), s', vmcs', calls)))"

text \<open>
  The loop of \<^verbatim>\<open>dump_log\<close>: \<^verbatim>\<open>for (auto i = 0U; i < 256U; ++i)\<close> with two checked reads
  of \<^verbatim>\<open>m_log.at(i)\<close> per non-zero counter. The result is the list of indices passed to
  \<^verbatim>\<open>at\<close> so far, in order, and either the exception or the lines printed (index and
  count). The heading and the rules that \<^verbatim>\<open>dump_log\<close> prints around them are left out.
\<close>

function dump_log_loop :: "nat \<Rightarrow> value_type list \<Rightarrow> nat list \<times> (exn + (nat \<times> value_type) list)" where
  "dump_log_loop i log =
     (if i < 256 then
        (case at log i of
           Inl e \<Rightarrow> ([i], Inl e)
         | Inr c \<Rightarrow>
             if c > 0 then
               (case at log i of
                  Inl e \<Rightarrow> ([i, i], Inl e)
                | Inr c' \<Rightarrow>
                    (case dump_log_loop (i + 1) log of
                       (acc, Inl e) \<Rightarrow> (i # i # acc, Inl e)
                     | (acc, Inr ls) \<Rightarrow> (i # i # acc, Inr ((i, c') # ls))))
             else
               (case dump_log_loop (i + 1) log of
                  (acc, r) \<Rightarrow> (i # acc, r)))
      else ([], Inr []))"
  by pat_completeness auto
termination
  by (relation "measure (\<lambda>(i, log). 256 - i)") auto

definition dump_log ::
  "'v external_interrupt_handler \<Rightarrow> nat list \<times> (exn + (nat \<times> value_type) list)" where
  "dump_log s = dump_log_loop 0 (m_log s)"

text \<open>
  A run of exits: before each call of \<^verbatim>\<open>handle\<close> the hardware has stored the exit
  interruption information of that exit. The outcomes of the calls are collected; the
  handler object and the machine are carried from one call to the next whether the call
  returned or threw.
\<close>

fun handle_exits ::
  "bool \<Rightarrow> value_type list \<Rightarrow> 'a vmcs_t_scheme external_interrupt_handler \<Rightarrow> 'a vmcs_t_scheme \<Rightarrow>
   (exn + bool) list \<times> 'a vmcs_t_scheme external_interrupt_handler \<times> 'a vmcs_t_scheme"
where
  "handle_exits ndebug [] s vmcs = ([], s, vmcs)"
| "handle_exits ndebug (x # xs) s vmcs =
     (case handle ndebug s (vmcs\<lparr>vm_exit_interruption_information := x\<rparr>) of
        (r, s', vmcs', calls) \<Rightarrow>
          (case handle_exits ndebug xs s' vmcs' of
             (rs, s'', vmcs'') \<Rightarrow> (r # rs, s'', vmcs'')))"

text \<open>
  The calls through which the two controls are reached: a sequence of
  \<^verbatim>\<open>enable_exiting\<close> and \<^verbatim>\<open>disable_exiting\<close> calls is a list of these, run in order.
\<close>

datatype exiting_call = Enable_exiting | Disable_exiting

fun exiting :: "exiting_call \<Rightarrow> 'a vmcs_t_scheme \<Rightarrow> 'a vmcs_t_scheme" where
  "exiting Enable_exiting v = enable_exiting v"
| "exiting Disable_exiting v = disable_exiting v"

text \<open>A machine with every field zero, the starting point of the concrete exits below.\<close>

definition vmcs_reset :: vmcs_t where
  "vmcs_reset =
     \<lparr>pin_based_vm_execution_controls = 0, vm_exit_controls = 0,
      vm_exit_interruption_information = 0, vm_exit_instruction_length = 0,
      exit_qualification_gpr = 0, gr = (\<lambda>r. 0), guest_rip = 0, guest_cr0 = 0,
      guest_cr3 = 0, guest_cr4 = 0, cr0_read_shadow = 0, cr4_read_shadow = 0\<rparr>"

section \<open>Control register handler\<close>

text \<open>
  \<^verbatim>\<open>control_register_handler::info_t\<close> as declared in control_register.h. (Both handler
  classes call their descriptor \<^verbatim>\<open>info_t\<close>; this one is named apart.)
\<close>

record cr_info_t =
  val :: value_type
  shadow :: value_type
  ignore_write :: bool
  ignore_advance :: bool

record 'v control_register_handler =
  m_wrcr0_handlers :: "('v, cr_info_t) handler_delegate_t list"
  m_rdcr3_handlers :: "('v, cr_info_t) handler_delegate_t list"
  m_wrcr3_handlers :: "('v, cr_info_t) handler_delegate_t list"
  m_wrcr4_handlers :: "('v, cr_info_t) handler_delegate_t list"

text \<open>
  Modelled from the spec: \<^verbatim>\<open>base::emulate_rdgpr\<close>, \<^verbatim>\<open>base::emulate_wrgpr\<close> and
  \<^verbatim>\<open>advance\<close> are not under src/. The spec has them read the guest's source
  general-purpose register, write the guest's destination general-purpose register, and
  advance the guest instruction pointer by the length of the trapping instruction. The
  register is the one the exit qualification names.
\<close>

definition emulate_rdgpr :: "'a vmcs_t_scheme \<Rightarrow> value_type" where
  "emulate_rdgpr v = gr v (exit_qualification_gpr v)"

definition emulate_wrgpr :: "'a vmcs_t_scheme \<Rightarrow> value_type \<Rightarrow> 'a vmcs_t_scheme" where
  "emulate_wrgpr v x = v\<lparr>gr := (gr v)(exit_qualification_gpr v := x)\<rparr>"

definition advance :: "'a vmcs_t_scheme \<Rightarrow> 'a vmcs_t_scheme" where
  "advance v = v\<lparr>guest_rip := guest_rip v + vm_exit_instruction_length v\<rparr>"

text \<open>
  Modelled from the spec: control_register.cpp, which defines \<^verbatim>\<open>handle_wrcr0\<close>,
  \<^verbatim>\<open>handle_rdcr3\<close>, \<^verbatim>\<open>handle_wrcr3\<close> and \<^verbatim>\<open>handle_wrcr4\<close>, is not under src/; only
  their declarations and the documentation of \<^verbatim>\<open>info_t\<close> in control_register.h are.
  Each path builds the descriptor with its defaults, runs its chain, and returns whether
  the chain claimed the exit. On a claim, unless \<^verbatim>\<open>ignore_write\<close> is set, the value is
  written to the guest's control register state and the shadow to the read-shadow field
  (for a read of CR3: the value is written to the destination register; CR3 has no
  read shadow); then, unless \<^verbatim>\<open>ignore_advance\<close> is set, the instruction pointer is
  advanced. The per-register logs are left out: the spec does not say what a snapshot
  holds. The result is the verdict, the machine and the call record.
\<close>

definition handle_wrcr0 ::
  "'a vmcs_t_scheme control_register_handler \<Rightarrow> 'a vmcs_t_scheme \<Rightarrow>
   bool \<times> 'a vmcs_t_scheme \<times> ('a vmcs_t_scheme, cr_info_t) call list"
where
  "handle_wrcr0 s vmcs =
     (let info = \<lparr>val = emulate_rdgpr vmcs, shadow = cr0_read_shadow vmcs,
                  ignore_write = False, ignore_advance = False\<rparr> in
      case dispatch (m_wrcr0_handlers s) vmcs info of
        (True, vmcs', info', calls) \<Rightarrow>
          (let vmcs1 = (if \<not> ignore_write info'
                        then vmcs'\<lparr>guest_cr0 := val info', cr0_read_shadow := shadow info'\<rparr>
                        else vmcs');
               vmcs2 = (if \<not> ignore_advance info' then advance vmcs1 else vmcs1)
           in (True, vmcs2, calls))
      | (False, vmcs', info', calls) \<Rightarrow> (False, vmcs', calls))"

definition handle_rdcr3 ::
  "'a vmcs_t_scheme control_register_handler \<Rightarrow> 'a vmcs_t_scheme \<Rightarrow>
   bool \<times> 'a vmcs_t_scheme \<times> ('a vmcs_t_scheme, cr_info_t) call list"
where
  "handle_rdcr3 s vmcs =
     (let info = \<lparr>val = guest_cr3 vmcs, shadow = 0,
                  ignore_write = False, ignore_advance = False\<rparr> in
      case dispatch (m_rdcr3_handlers s) vmcs info of
        (True, vmcs', info', calls) \<Rightarrow>
          (let vmcs1 = (if \<not> ignore_write info' then emulate_wrgpr vmcs' (val info') else vmcs');
               vmcs2 = (if \<not> ignore_advance info' then advance vmcs1 else vmcs1)
           in (True, vmcs2, calls))
      | (False, vmcs', info', calls) \<Rightarrow> (False, vmcs', calls))"

definition handle_wrcr3 ::
  "'a vmcs_t_scheme control_register_handler \<Rightarrow> 'a vmcs_t_scheme \<Rightarrow>
   bool \<times> 'a vmcs_t_scheme \<times> ('a vmcs_t_scheme, cr_info_t) call list"
where
  "handle_wrcr3 s vmcs =
     (let info = \<lparr>val = emulate_rdgpr vmcs, shadow = 0,
                  ignore_write = False, ignore_advance = False\<rparr> in
      case dispatch (m_wrcr3_handlers s) vmcs info of
        (True, vmcs', info', calls) \<Rightarrow>
          (let vmcs1 = (if \<not> ignore_write info' then vmcs'\<lparr>guest_cr3 := val info'\<rparr> else vmcs');
               vmcs2 = (if \<not> ignore_advance info' then advance vmcs1 else vmcs1)
           in (True, vmcs2, calls))
      | (False, vmcs', info', calls) \<Rightarrow> (False, vmcs', calls))"

definition handle_wrcr4 ::
  "'a vmcs_t_scheme control_register_handler \<Rightarrow> 'a vmcs_t_scheme \<Rightarrow>
   bool \<times> 'a vmcs_t_scheme \<times> ('a vmcs_t_scheme, cr_info_t) call list"
where
  "handle_wrcr4 s vmcs =
     (let info = \<lparr>val = emulate_rdgpr vmcs, shadow = cr4_read_shadow vmcs,
                  ignore_write = False, ignore_advance = False\<rparr> in
      case dispatch (m_wrcr4_handlers s) vmcs info of
        (True, vmcs', info', calls) \<Rightarrow>
          (let vmcs1 = (if \<not> ignore_write info'
                        then vmcs'\<lparr>guest_cr4 := val info', cr4_read_shadow := shadow info'\<rparr>
                        else vmcs');
               vmcs2 = (if \<not> ignore_advance info' then advance vmcs1 else vmcs1)
           in (True, vmcs2, calls))
      | (False, vmcs', info', calls) \<Rightarrow> (False, vmcs', calls))"


text \<open>The descriptor each path starts from, for use in the statements below.\<close>

abbreviation wrcr0_info :: "'a vmcs_t_scheme \<Rightarrow> cr_info_t" where
  "wrcr0_info vmcs \<equiv>
     \<lparr>val = emulate_rdgpr vmcs, shadow = cr0_read_shadow vmcs,
      ignore_write = False, ignore_advance = False\<rparr>"

abbreviation rdcr3_info :: "'a vmcs_t_scheme \<Rightarrow> cr_info_t" where
  "rdcr3_info vmcs \<equiv>
     \<lparr>val = guest_cr3 vmcs, shadow = 0, ignore_write = False, ignore_advance = False\<rparr>"

abbreviation wrcr3_info :: "'a vmcs_t_scheme \<Rightarrow> cr_info_t" where
  "wrcr3_info vmcs \<equiv>
     \<lparr>val = emulate_rdgpr vmcs, shadow = 0, ignore_write = False, ignore_advance = False\<rparr>"

abbreviation wrcr4_info :: "'a vmcs_t_scheme \<Rightarrow> cr_info_t" where
  "wrcr4_info vmcs \<equiv>
     \<lparr>val = emulate_rdgpr vmcs, shadow = cr4_read_shadow vmcs,
      ignore_write = False, ignore_advance = False\<rparr>"

section \<open>Properties of the loop and of the log\<close>

declare dump_log_loop.simps [simp del]


lemma dispatch_never_claims:
  "\<forall>d \<in> set ds. \<forall>v i. \<not> fst (d v i) \<Longrightarrow> \<not> fst (dispatch ds v i)"
proof (induction ds arbitrary: v i)
  case Nil
  show ?case by simp
next
  case (Cons d ds)
  obtain b v1 i1 where d: "d v i = (b, v1, i1)" by (cases "d v i") auto
  from Cons.prems have "\<not> fst (d v i)" by simp
  with d have b: "\<not> b" by simp
  from Cons.prems have "\<not> fst (dispatch ds v1 i1)" by (intro Cons.IH) simp
  with d b show ?case by (auto split: prod.splits)
qed




lemma vector_get_bound: "unat (vector_get v) < 256"
proof -
  have "vector_get v \<le> 0xFF" unfolding vector_get_def by (rule word_and_le1)
  then have "unat (vector_get v) \<le> unat (0xFF :: 64 word)" by (simp add: word_le_nat_alt)
  then show ?thesis by simp
qed


lemma dispatch_calls_shape:
  "dispatch ds v i = (c, v', i', calls) \<Longrightarrow>
     map fst calls = take (length calls) ds \<and>
     (\<forall>k. Suc k < length calls \<longrightarrow> \<not> snd (snd (calls ! k))) \<and>
     (c \<longleftrightarrow> calls \<noteq> [] \<and> snd (snd (last calls))) \<and>
     (\<not> c \<longrightarrow> length calls = length ds)"
proof (induction ds arbitrary: v i c v' i' calls)
  case Nil
  then show ?case by auto
next
  case (Cons d ds)
  obtain b v1 i1 where d: "d v i = (b, v1, i1)" by (cases "d v i") auto
  show ?case
  proof (cases b)
    case True
    with d Cons.prems show ?thesis by auto
  next
    case False
    obtain c2 v2 i2 calls2 where r: "dispatch ds v1 i1 = (c2, v2, i2, calls2)"
      by (cases "dispatch ds v1 i1") auto
    from Cons.IH [OF r] have ih:
      "map fst calls2 = take (length calls2) ds"
      "\<forall>k. Suc k < length calls2 \<longrightarrow> \<not> snd (snd (calls2 ! k))"
      "c2 \<longleftrightarrow> calls2 \<noteq> [] \<and> snd (snd (last calls2))"
      "\<not> c2 \<longrightarrow> length calls2 = length ds"
      by auto
    from d False r Cons.prems have eq: "c = c2" "calls = (d, i, False) # calls2" by auto
    from ih(2) have "\<forall>k. Suc k < length calls \<longrightarrow> \<not> snd (snd (calls ! k))"
      by (auto simp: eq nth_Cons')
    with ih(1,3,4) show ?thesis by (auto simp: eq)
  qed
qed


lemma at_incr_vector:
  "length log = 256 \<Longrightarrow>
   at_incr log (unat (vector_get v)) =
     Inr (log[unat (vector_get v) := log ! unat (vector_get v) + 1])"
  using vector_get_bound [of v] by (simp add: at_incr_def at_def)

lemma handle_unfold:
  assumes "length (m_log s) = 256"
  shows "handle ndebug s vmcs =
     (case dispatch (m_handlers s) vmcs \<lparr>vector = vector_get vmcs\<rparr> of
        (c, vmcs', info', calls) \<Rightarrow>
          (if c then Inr True else Inl (Unhandled_interrupt_vector (vector info')),
           s\<lparr>m_log :=
               if \<not> ndebug \<and> m_log_enabled s
               then (m_log s)[unat (vector_get vmcs) := m_log s ! unat (vector_get vmcs) + 1]
               else m_log s\<rparr>,
           vmcs', calls))"
  using at_incr_vector [OF assms, of vmcs]
  by (auto simp: handle_def Let_def split: prod.splits bool.splits)

lemma handle_calls:
  assumes "handle ndebug s vmcs = (r, s', vmcs', calls)"
  shows "(calls = [] \<and> (\<exists>e. r = Inl e)) \<or>
         (\<exists>c i'. dispatch (m_handlers s) vmcs \<lparr>vector = vector_get vmcs\<rparr> = (c, vmcs', i', calls) \<and>
                  r = (if c then Inr True else Inl (Unhandled_interrupt_vector (vector i'))))"
  using assms
  by (auto simp: handle_def Let_def split: sum.splits prod.splits bool.splits if_splits)


lemma handle_state:
  assumes len: "length (m_log s) = 256"
    and run: "handle ndebug s vmcs = (r, s', vmcs', calls)"
  shows "s' = s\<lparr>m_log :=
               if \<not> ndebug \<and> m_log_enabled s
               then (m_log s)[unat (vector_get vmcs) := m_log s ! unat (vector_get vmcs) + 1]
               else m_log s\<rparr>"
  using run by (auto simp: handle_unfold [OF len] split: prod.splits)

lemma handle_exits_log:
  assumes "length (m_log s) = 256"
    and "handle_exits ndebug xs s vmcs = (rs, s', vmcs')"
  shows "length (m_log s') = 256 \<and> m_log_enabled s' = m_log_enabled s \<and>
         m_handlers s' = m_handlers s \<and> length rs = length xs \<and>
         (\<forall>v < 256. m_log s' ! v =
            m_log s ! v +
            (if \<not> ndebug \<and> m_log_enabled s
             then of_nat (length (filter (\<lambda>x. unat (x AND 0xFF) = v) xs)) else 0))"
  using assms
proof (induction xs arbitrary: s vmcs rs s' vmcs')
  case Nil
  then show ?case by simp
next
  case (Cons x xs)
  let ?v = "vmcs\<lparr>vm_exit_interruption_information := x\<rparr>"
  let ?n = "unat (x AND 0xFF)"
  obtain r s1 v1 calls where h: "handle ndebug s ?v = (r, s1, v1, calls)"
    by (cases "handle ndebug s ?v") auto
  obtain rs1 where rest: "handle_exits ndebug xs s1 v1 = (rs1, s', vmcs')" and rs: "rs = r # rs1"
    using Cons.prems(2) h by (auto split: prod.splits)
  have vec: "unat (vector_get ?v) = ?n" by (simp add: vector_get_def)
  have n: "?n < 256" using vector_get_bound [of ?v] vec by simp
  from handle_state [OF Cons.prems(1) h] vec
  have s1: "s1 = s\<lparr>m_log := if \<not> ndebug \<and> m_log_enabled s
                             then (m_log s)[?n := m_log s ! ?n + 1] else m_log s\<rparr>"
    by simp
  then have len1: "length (m_log s1) = 256" using Cons.prems(1) by simp
  from s1 have en1: "m_log_enabled s1 = m_log_enabled s" and hs1: "m_handlers s1 = m_handlers s"
    by simp_all
  note ih = Cons.IH [OF len1 rest]
  have step: "m_log s1 ! v = m_log s ! v + (if \<not> ndebug \<and> m_log_enabled s \<and> ?n = v then 1 else 0)"
    if "v < 256" for v
    using that Cons.prems(1) n by (simp add: s1 nth_list_update)
  have "m_log s' ! v =
          m_log s ! v +
          (if \<not> ndebug \<and> m_log_enabled s
           then of_nat (length (filter (\<lambda>x. unat (x AND 0xFF) = v) (x # xs))) else 0)"
    if v: "v < 256" for v
  proof -
    from ih v have "m_log s' ! v = m_log s1 ! v +
        (if \<not> ndebug \<and> m_log_enabled s1
         then of_nat (length (filter (\<lambda>x. unat (x AND 0xFF) = v) xs)) else 0)"
      by blast
    with step [OF v] en1 show ?thesis by simp
  qed
  with ih en1 hs1 rs show ?case by simp
qed

lemma dump_log_loop_indices:
  "\<forall>j \<in> set (fst (dump_log_loop i log)). i \<le> j \<and> j < 256"
proof (induction i log rule: dump_log_loop.induct)
  case (1 i log)
  show ?case
  proof (cases "i < 256")
    case False
    then show ?thesis by (subst dump_log_loop.simps) simp
  next
    case True
    show ?thesis
    proof (cases "at log i")
      case (Inl e)
      with True show ?thesis by (subst dump_log_loop.simps) simp
    next
      case (Inr c)
      show ?thesis
      proof (cases "0 < c")
        case pos: True
        from "1.IH"(1) [OF True Inr pos Inr]
        have ih: "\<forall>j \<in> set (fst (dump_log_loop (i + 1) log)). i \<le> j \<and> j < 256" by auto
        obtain acc r where rest: "dump_log_loop (i + 1) log = (acc, r)"
          by (cases "dump_log_loop (i + 1) log") auto
        with ih have "\<forall>j \<in> set acc. i \<le> j \<and> j < 256" by simp
        with True Inr pos rest show ?thesis
          by (subst dump_log_loop.simps) (simp split: sum.splits)
      next
        case zero: False
        from "1.IH"(2) [OF True Inr zero]
        have ih: "\<forall>j \<in> set (fst (dump_log_loop (i + 1) log)). i \<le> j \<and> j < 256" by auto
        obtain acc r where rest: "dump_log_loop (i + 1) log = (acc, r)"
          by (cases "dump_log_loop (i + 1) log") auto
        with ih have "\<forall>j \<in> set acc. i \<le> j \<and> j < 256" by simp
        with True Inr zero rest show ?thesis
          by (subst dump_log_loop.simps) simp
      qed
    qed
  qed
qed

lemma dump_log_loop_ok:
  "length log = 256 \<Longrightarrow> \<exists>ls. snd (dump_log_loop i log) = Inr ls"
proof (induction i log rule: dump_log_loop.induct)
  case (1 i log)
  show ?case
  proof (cases "i < 256")
    case False
    then show ?thesis by (subst dump_log_loop.simps) simp
  next
    case True
    with "1.prems" have at: "at log i = Inr (log ! i)" by (simp add: at_def)
    show ?thesis
    proof (cases "0 < log ! i")
      case pos: True
      from "1.IH"(1) [OF True at pos at "1.prems"]
      obtain ls where "snd (dump_log_loop (i + 1) log) = Inr ls" ..
      with True at pos show ?thesis
        by (subst dump_log_loop.simps) (auto split: prod.splits)
    next
      case zero: False
      from "1.IH"(2) [OF True at zero "1.prems"]
      obtain ls where "snd (dump_log_loop (i + 1) log) = Inr ls" ..
      with True at zero show ?thesis
        by (subst dump_log_loop.simps) (auto split: prod.splits)
    qed
  qed
qed

lemma enable_exiting_both:
  "external_interrupt_exiting_is_enabled (enable_exiting v) \<and>
   acknowledge_interrupt_on_exit_is_enabled (enable_exiting v)"
  by (simp add: enable_exiting_def external_interrupt_exiting_is_enabled_def
      acknowledge_interrupt_on_exit_is_enabled_def external_interrupt_exiting_enable_def
      acknowledge_interrupt_on_exit_enable_def external_interrupt_exiting_from_def
      acknowledge_interrupt_on_exit_from_def bit_set_bit_iff)

lemma disable_exiting_both:
  "\<not> external_interrupt_exiting_is_enabled (disable_exiting v) \<and>
   \<not> acknowledge_interrupt_on_exit_is_enabled (disable_exiting v)"
  by (simp add: disable_exiting_def external_interrupt_exiting_is_enabled_def
      acknowledge_interrupt_on_exit_is_enabled_def external_interrupt_exiting_disable_def
      acknowledge_interrupt_on_exit_disable_def external_interrupt_exiting_from_def
      acknowledge_interrupt_on_exit_from_def bit_unset_bit_iff)

lemma exiting_coupled:
  "external_interrupt_exiting_is_enabled (exiting c v) =
   acknowledge_interrupt_on_exit_is_enabled (exiting c v)"
  using enable_exiting_both [of v] disable_exiting_both [of v] by (cases c) simp_all

lemma dispatch_first_call:
  "ds \<noteq> [] \<Longrightarrow>
   hd (snd (snd (snd (dispatch ds v i)))) = (hd ds, i, fst (hd ds v i))"
  by (cases ds) (auto split: prod.splits bool.splits)

lemma handle_wrcr0_calls:
  "snd (snd (handle_wrcr0 s vmcs)) =
   snd (snd (snd (dispatch (m_wrcr0_handlers s) vmcs (wrcr0_info vmcs))))"
  by (simp add: handle_wrcr0_def Let_def split: prod.splits bool.splits)

lemma handle_rdcr3_calls:
  "snd (snd (handle_rdcr3 s vmcs)) =
   snd (snd (snd (dispatch (m_rdcr3_handlers s) vmcs (rdcr3_info vmcs))))"
  by (simp add: handle_rdcr3_def Let_def split: prod.splits bool.splits)

lemma handle_wrcr3_calls:
  "snd (snd (handle_wrcr3 s vmcs)) =
   snd (snd (snd (dispatch (m_wrcr3_handlers s) vmcs (wrcr3_info vmcs))))"
  by (simp add: handle_wrcr3_def Let_def split: prod.splits bool.splits)

lemma handle_wrcr4_calls:
  "snd (snd (handle_wrcr4 s vmcs)) =
   snd (snd (snd (dispatch (m_wrcr4_handlers s) vmcs (wrcr4_info vmcs))))"
  by (simp add: handle_wrcr4_def Let_def split: prod.splits bool.splits)

section \<open>Claims about the handler chain\<close>











section \<open>Claims about the external interrupt handler\<close>

text \<open>
  C2. An external-interrupt exit that no delegate claims does not return: \<^verbatim>\<open>handle\<close>
  ends by throwing. If no call of the dispatch returned true (or if no registered
  delegate ever returns true), the outcome is an exception; \<^verbatim>\<open>handle\<close> never returns
  false. On an empty chain the exception is the runtime error "Unhandled interrupt
  vector" for the delivered vector and no delegate is called. The exception leaves
  \<^verbatim>\<open>handle\<close>; that the hypervisor then stops is the caller's doing.
\<close>

theorem unclaimed_interrupt_throws:
  assumes run: "handle ndebug s vmcs = (r, s', vmcs', calls)"
  shows "r \<noteq> Inr False \<and>
         ((\<forall>c \<in> set calls. \<not> snd (snd c)) \<longrightarrow> (\<exists>e. r = Inl e)) \<and>
         ((\<forall>d \<in> set (m_handlers s). \<forall>v i. \<not> fst (d v i)) \<longrightarrow> (\<exists>e. r = Inl e)) \<and>
         (m_handlers s = [] \<and> length (m_log s) = 256 \<longrightarrow>
            r = Inl (Unhandled_interrupt_vector (vector_get vmcs)) \<and> calls = [])"
proof -
  let ?i = "\<lparr>vector = vector_get vmcs\<rparr>"
  from handle_calls [OF run] have cases:
    "(calls = [] \<and> (\<exists>e. r = Inl e)) \<or>
     (\<exists>c i'. dispatch (m_handlers s) vmcs ?i = (c, vmcs', i', calls) \<and>
        r = (if c then Inr True else Inl (Unhandled_interrupt_vector (vector i'))))" .
  then have nofalse: "r \<noteq> Inr False" by (auto split: if_splits)
  have a: "\<exists>e. r = Inl e" if un: "\<forall>c \<in> set calls. \<not> snd (snd c)"
    using cases
  proof
    assume "calls = [] \<and> (\<exists>e. r = Inl e)"
    then show ?thesis by simp
  next
    assume "\<exists>c i'. dispatch (m_handlers s) vmcs ?i = (c, vmcs', i', calls) \<and>
        r = (if c then Inr True else Inl (Unhandled_interrupt_vector (vector i')))"
    then obtain c i' where d: "dispatch (m_handlers s) vmcs ?i = (c, vmcs', i', calls)"
      and r: "r = (if c then Inr True else Inl (Unhandled_interrupt_vector (vector i')))"
      by blast
    from dispatch_calls_shape [OF d] have "c \<longleftrightarrow> calls \<noteq> [] \<and> snd (snd (last calls))"
      by simp
    with un have "\<not> c" using last_in_set by blast
    with r show ?thesis by simp
  qed
  have b: "\<exists>e. r = Inl e" if never: "\<forall>d \<in> set (m_handlers s). \<forall>v i. \<not> fst (d v i)"
    using cases
  proof
    assume "calls = [] \<and> (\<exists>e. r = Inl e)"
    then show ?thesis by simp
  next
    assume "\<exists>c i'. dispatch (m_handlers s) vmcs ?i = (c, vmcs', i', calls) \<and>
        r = (if c then Inr True else Inl (Unhandled_interrupt_vector (vector i')))"
    then obtain c i' where d: "dispatch (m_handlers s) vmcs ?i = (c, vmcs', i', calls)"
      and r: "r = (if c then Inr True else Inl (Unhandled_interrupt_vector (vector i')))"
      by blast
    from dispatch_never_claims [OF never, of vmcs ?i] d have "\<not> c" by simp
    with r show ?thesis by simp
  qed
  have c: "r = Inl (Unhandled_interrupt_vector (vector_get vmcs)) \<and> calls = []"
    if "m_handlers s = []" and len: "length (m_log s) = 256"
    using run that(1) by (auto simp add: handle_unfold [OF len])
  from nofalse a b c show ?thesis by blast
qed

theorem unclaimed_interrupt_throws_witness:
  "handle True (external_interrupt_handler_init :: vmcs_t external_interrupt_handler)
     (vmcs_reset\<lparr>vm_exit_interruption_information := 200\<rparr>) =
   (Inl (Unhandled_interrupt_vector 200), external_interrupt_handler_init,
    vmcs_reset\<lparr>vm_exit_interruption_information := 200\<rparr>, []) \<and>
   m_handlers (external_interrupt_handler_init :: vmcs_t external_interrupt_handler) = [] \<and>
   length (m_log (external_interrupt_handler_init :: vmcs_t external_interrupt_handler)) = 256 \<and>
   vector_get (vmcs_reset\<lparr>vm_exit_interruption_information := 200\<rparr>) = 200"
proof -
  let ?s = "external_interrupt_handler_init :: vmcs_t external_interrupt_handler"
  let ?v = "vmcs_reset\<lparr>vm_exit_interruption_information := 200\<rparr>"
  have vec: "vector_get ?v = 200"
    by (simp add: vector_get_def vmcs_reset_def)
  have empty: "m_handlers ?s = []" and len: "length (m_log ?s) = 256"
    by (simp_all add: external_interrupt_handler_init_def)
  obtain r s' v' calls where run: "handle True ?s ?v = (r, s', v', calls)"
    by (cases "handle True ?s ?v") auto
  from unclaimed_interrupt_throws [OF run] empty len
  have r: "r = Inl (Unhandled_interrupt_vector (vector_get ?v))" and c: "calls = []"
    by blast+
  have "s' = ?s" and "v' = ?v"
    using run by (simp_all add: handle_def Let_def external_interrupt_handler_init_def)
  with run r c vec have "handle True ?s ?v = (Inl (Unhandled_interrupt_vector 200), ?s, ?v, [])"
    by simp
  with empty len vec show ?thesis by (intro conjI)
qed

text \<open>
  C10. With logging on, the counter of the delivered vector is incremented before the
  chain is run and stays incremented on the path that throws: when no call of the
  dispatch claims the exit, \<^verbatim>\<open>handle\<close> throws the runtime error and the handler object
  it leaves behind has that one counter raised by one.
\<close>

theorem log_kept_on_unclaimed_exit:
  assumes dbg: "\<not> ndebug" and en: "m_log_enabled s" and len: "length (m_log s) = 256"
    and run: "handle ndebug s vmcs = (r, s', vmcs', calls)"
    and un: "\<forall>c \<in> set calls. \<not> snd (snd c)"
  shows "(\<exists>v. r = Inl (Unhandled_interrupt_vector v)) \<and>
         m_log s' = (m_log s)[unat (vector_get vmcs) := m_log s ! unat (vector_get vmcs) + 1] \<and>
         m_log s' ! unat (vector_get vmcs) = m_log s ! unat (vector_get vmcs) + 1"
proof -
  let ?i = "\<lparr>vector = vector_get vmcs\<rparr>"
  let ?n = "unat (vector_get vmcs)"
  obtain c v1 i1 calls1 where d: "dispatch (m_handlers s) vmcs ?i = (c, v1, i1, calls1)"
    by (cases "dispatch (m_handlers s) vmcs ?i") auto
  from run d dbg en have r: "r = (if c then Inr True else Inl (Unhandled_interrupt_vector (vector i1)))"
    and s': "s' = s\<lparr>m_log := (m_log s)[?n := m_log s ! ?n + 1]\<rparr>"
    and calls: "calls = calls1"
    by (simp_all add: handle_unfold [OF len])
  from dispatch_calls_shape [OF d] have "c \<longleftrightarrow> calls1 \<noteq> [] \<and> snd (snd (last calls1))"
    by simp
  with un calls have "\<not> c" using last_in_set by blast
  with r have "\<exists>v. r = Inl (Unhandled_interrupt_vector v)" by simp
  moreover have "?n < length (m_log s)" using vector_get_bound [of vmcs] len by simp
  ultimately show ?thesis using s' by simp
qed

theorem log_kept_on_unclaimed_exit_witness:
  "m_log_enabled (enable_log external_interrupt_handler_init :: vmcs_t external_interrupt_handler) \<and>
   length (m_log (enable_log external_interrupt_handler_init :: vmcs_t external_interrupt_handler)) = 256 \<and>
   fst (handle False (enable_log external_interrupt_handler_init)
          (vmcs_reset\<lparr>vm_exit_interruption_information := 200\<rparr>)) =
     Inl (Unhandled_interrupt_vector 200) \<and>
   m_log (fst (snd (handle False (enable_log external_interrupt_handler_init)
          (vmcs_reset\<lparr>vm_exit_interruption_information := 200\<rparr>)))) ! 200 = 1"
proof -
  let ?s = "enable_log external_interrupt_handler_init :: vmcs_t external_interrupt_handler"
  let ?v = "vmcs_reset\<lparr>vm_exit_interruption_information := 200\<rparr>"
  have vec: "vector_get ?v = 200"
    by (simp add: vector_get_def vmcs_reset_def)
  have en: "m_log_enabled ?s" and len: "length (m_log ?s) = 256" and empty: "m_handlers ?s = []"
    and zero: "m_log ?s ! 200 = 0"
    by (simp_all add: external_interrupt_handler_init_def enable_log_def)
  obtain r s' v' calls where run: "handle False ?s ?v = (r, s', v', calls)"
    by (cases "handle False ?s ?v") auto
  with empty have r: "r = Inl (Unhandled_interrupt_vector 200)" and calls: "calls = []"
    by (auto simp: handle_unfold [OF len] vec)
  then have un: "\<forall>c \<in> set calls. \<not> snd (snd c)" by simp
  have dbg: "\<not> False" by simp
  from log_kept_on_unclaimed_exit [OF dbg en len run un]
  have "m_log s' ! unat (vector_get ?v) = m_log ?s ! unat (vector_get ?v) + 1" by blast
  with vec zero have "m_log s' ! 200 = 1" by simp
  with run r have "fst (handle False ?s ?v) = Inl (Unhandled_interrupt_vector 200)"
    and "m_log (fst (snd (handle False ?s ?v))) ! 200 = 1" by simp_all
  with en len show ?thesis by (intro conjI)
qed

text \<open>
  C5. Over any run of exits with logging on (\<^verbatim>\<open>!ndebug && m_log_enabled\<close>), each of the
  256 counters has grown by the number of exits that delivered its vector, counted in
  the counter's own 64-bit arithmetic; from an all-zero table and fewer than \<open>2 ^ 64\<close>
  exits the counter read as a number is exactly that count. With logging off the table
  is unchanged, however many exits are handled.
\<close>

theorem per_vector_counters:
  assumes len: "length (m_log s) = 256"
    and run: "handle_exits ndebug xs s vmcs = (rs, s', vmcs')"
  shows "(\<not> ndebug \<and> m_log_enabled s \<longrightarrow>
            (\<forall>v < 256. m_log s' ! v =
               m_log s ! v + of_nat (length (filter (\<lambda>x. unat (x AND 0xFF) = v) xs)))) \<and>
         (\<not> ndebug \<and> m_log_enabled s \<and> m_log s = replicate 256 0 \<and> length xs < 2 ^ 64 \<longrightarrow>
            (\<forall>v < 256. unat (m_log s' ! v) = length (filter (\<lambda>x. unat (x AND 0xFF) = v) xs))) \<and>
         (ndebug \<or> \<not> m_log_enabled s \<longrightarrow> m_log s' = m_log s) \<and>
         length (m_log s') = 256 \<and> length rs = length xs"
proof -
  note l = handle_exits_log [OF len run]
  have a: "m_log s' ! v = m_log s ! v + of_nat (length (filter (\<lambda>x. unat (x AND 0xFF) = v) xs))"
    if "\<not> ndebug \<and> m_log_enabled s" "v < 256" for v
    using l that by simp
  have b: "unat (m_log s' ! v) = length (filter (\<lambda>x. unat (x AND 0xFF) = v) xs)"
    if en: "\<not> ndebug \<and> m_log_enabled s" and z: "m_log s = replicate 256 0"
      and n: "length xs < 2 ^ 64" and v: "v < 256" for v
  proof -
    let ?k = "length (filter (\<lambda>x. unat (x AND 0xFF) = v) xs)"
    have k: "?k < 2 ^ 64" by (rule le_less_trans [OF length_filter_le n])
    from a [OF en v] z v have "m_log s' ! v = of_nat ?k" by simp
    then have "unat (m_log s' ! v) = unat (of_nat ?k :: 64 word)" by simp
    also have "\<dots> = ?k" by (rule of_nat_inverse [OF refl]) (use k in simp)
    finally show ?thesis .
  qed
  have c: "m_log s' = m_log s" if "ndebug \<or> \<not> m_log_enabled s"
  proof (rule nth_equalityI)
    show "length (m_log s') = length (m_log s)" using l len by simp
  next
    fix i assume "i < length (m_log s')"
    with l have "i < 256" by simp
    with l that show "m_log s' ! i = m_log s ! i" by auto
  qed
  from a b c l show ?thesis by blast
qed

theorem per_vector_counters_witness:
  "length (m_log (enable_log (add_handler (\<lambda>v i. (True, v, i)) external_interrupt_handler_init)
      :: vmcs_t external_interrupt_handler)) = 256 \<and>
   unat (m_log (fst (snd (handle_exits False [34, 200, 34, 34]
      (enable_log (add_handler (\<lambda>v i. (True, v, i)) external_interrupt_handler_init)) vmcs_reset))) ! 34) = 3 \<and>
   unat (m_log (fst (snd (handle_exits False [34, 200, 34, 34]
      (enable_log (add_handler (\<lambda>v i. (True, v, i)) external_interrupt_handler_init)) vmcs_reset))) ! 200) = 1 \<and>
   unat (m_log (fst (snd (handle_exits False [34, 200, 34, 34]
      (enable_log (add_handler (\<lambda>v i. (True, v, i)) external_interrupt_handler_init)) vmcs_reset))) ! 35) = 0 \<and>
   m_log (fst (snd (handle_exits False [34, 200, 34, 34]
      (add_handler (\<lambda>v i. (True, v, i)) external_interrupt_handler_init) vmcs_reset))) = replicate 256 0"
proof -
  let ?d = "add_handler (\<lambda>v i. (True, v, i)) external_interrupt_handler_init :: vmcs_t external_interrupt_handler"
  let ?s = "enable_log ?d"
  let ?xs = "[34, 200, 34, 34] :: value_type list"
  have len: "length (m_log ?s) = 256" and en: "\<not> False \<and> m_log_enabled ?s"
    and z: "m_log ?s = replicate 256 0"
    by (simp_all add: external_interrupt_handler_init_def enable_log_def add_handler_def)
  have lend: "length (m_log ?d) = 256" and dis: "False \<or> \<not> m_log_enabled ?d"
    and zd: "m_log ?d = replicate 256 0"
    by (simp_all add: external_interrupt_handler_init_def add_handler_def)
  have n: "length ?xs < 2 ^ 64" by simp
  obtain rs s' v' where run: "handle_exits False ?xs ?s vmcs_reset = (rs, s', v')"
    by (cases "handle_exits False ?xs ?s vmcs_reset") auto
  from per_vector_counters [OF len run] en z n
  have cnt: "\<forall>v < 256. unat (m_log s' ! v) = length (filter (\<lambda>x. unat (x AND 0xFF) = v) ?xs)"
    by blast
  have "unat (m_log s' ! 34) = 3" using cnt [rule_format, of 34] by simp
  moreover have "unat (m_log s' ! 200) = 1" using cnt [rule_format, of 200] by simp
  moreover have "unat (m_log s' ! 35) = 0" using cnt [rule_format, of 35] by simp
  ultimately have on: "unat (m_log (fst (snd (handle_exits False ?xs ?s vmcs_reset))) ! 34) = 3"
    "unat (m_log (fst (snd (handle_exits False ?xs ?s vmcs_reset))) ! 200) = 1"
    "unat (m_log (fst (snd (handle_exits False ?xs ?s vmcs_reset))) ! 35) = 0"
    using run by simp_all
  obtain rs2 s2 v2 where run2: "handle_exits False ?xs ?d vmcs_reset = (rs2, s2, v2)"
    by (cases "handle_exits False ?xs ?d vmcs_reset") auto
  from per_vector_counters [OF lend run2] dis have "m_log s2 = m_log ?d" by blast
  with zd run2 have off: "m_log (fst (snd (handle_exits False ?xs ?d vmcs_reset))) = replicate 256 0"
    by simp
  from len on off show ?thesis by (intro conjI)
qed

text \<open>
  C9. The vector read from the exit interruption-information field is below 256, so the
  checked access \<^verbatim>\<open>m_log.at(info.vector)\<close> in \<^verbatim>\<open>handle\<close> succeeds on the 256-entry table
  and \<^verbatim>\<open>handle\<close> never throws \<^verbatim>\<open>std::out_of_range\<close>; \<^verbatim>\<open>dump_log\<close> passes only
  indices below 256 to \<^verbatim>\<open>at\<close> and none of its reads fails.
\<close>

theorem vector_index_in_bounds:
  assumes len: "length (m_log s) = 256"
  shows "unat (vector_get vmcs) < 256 \<and>
         at (m_log s) (unat (vector_get vmcs)) = Inr (m_log s ! unat (vector_get vmcs)) \<and>
         fst (handle ndebug s vmcs) \<noteq> Inl Out_of_range \<and>
         length (m_log (fst (snd (handle ndebug s vmcs)))) = 256 \<and>
         (\<forall>i \<in> set (fst (dump_log s)). i < 256) \<and>
         (\<exists>ls. snd (dump_log s) = Inr ls)"
proof -
  have b: "unat (vector_get vmcs) < 256" by (rule vector_get_bound)
  with len have a: "at (m_log s) (unat (vector_get vmcs)) = Inr (m_log s ! unat (vector_get vmcs))"
    by (simp add: at_def)
  have h: "fst (handle ndebug s vmcs) \<noteq> Inl Out_of_range"
    by (simp add: handle_unfold [OF len] split: prod.splits)
  have l: "length (m_log (fst (snd (handle ndebug s vmcs)))) = 256"
    using len by (simp add: handle_unfold [OF len] split: prod.splits)
  have d1: "\<forall>i \<in> set (fst (dump_log s)). i < 256"
    using dump_log_loop_indices [of 0 "m_log s"] by (simp add: dump_log_def)
  have d2: "\<exists>ls. snd (dump_log s) = Inr ls"
    using dump_log_loop_ok [OF len, of 0] by (simp add: dump_log_def)
  from b a h l d1 d2 show ?thesis by (intro conjI)
qed

theorem vector_index_in_bounds_witness:
  "length (m_log (enable_log external_interrupt_handler_init :: vmcs_t external_interrupt_handler)) = 256 \<and>
   unat (vector_get (vmcs_reset\<lparr>vm_exit_interruption_information := 0x800003C8\<rparr>)) = 200 \<and>
   fst (handle False (enable_log external_interrupt_handler_init)
          (vmcs_reset\<lparr>vm_exit_interruption_information := 0x800003C8\<rparr>)) \<noteq> Inl Out_of_range"
proof -
  let ?s = "enable_log external_interrupt_handler_init :: vmcs_t external_interrupt_handler"
  let ?v = "vmcs_reset\<lparr>vm_exit_interruption_information := 0x800003C8\<rparr>"
  have len: "length (m_log ?s) = 256"
    by (simp add: external_interrupt_handler_init_def enable_log_def)
  have vec: "unat (vector_get ?v) = 200"
    by (simp add: vector_get_def vmcs_reset_def)
  from vector_index_in_bounds [OF len, of ?v False]
  have "fst (handle False ?s ?v) \<noteq> Inl Out_of_range" by blast
  with len vec show ?thesis by (intro conjI)
qed

text \<open>
  C4. After \<^verbatim>\<open>enable_exiting\<close> both the external-interrupt-exiting control and the
  acknowledge-interrupt-on-exit control read as enabled, after \<^verbatim>\<open>disable_exiting\<close> both
  read as disabled, and after any non-empty sequence of these calls, from any machine
  state, the two controls are equal.
\<close>

theorem exiting_controls_coupled:
  "external_interrupt_exiting_is_enabled (enable_exiting v) \<and>
   acknowledge_interrupt_on_exit_is_enabled (enable_exiting v) \<and>
   \<not> external_interrupt_exiting_is_enabled (disable_exiting v) \<and>
   \<not> acknowledge_interrupt_on_exit_is_enabled (disable_exiting v) \<and>
   (cs \<noteq> [] \<longrightarrow>
      external_interrupt_exiting_is_enabled (fold exiting cs v) =
      acknowledge_interrupt_on_exit_is_enabled (fold exiting cs v))"
proof -
  have "external_interrupt_exiting_is_enabled (fold exiting cs v) =
        acknowledge_interrupt_on_exit_is_enabled (fold exiting cs v)" if "cs \<noteq> []"
  proof -
    from that obtain c cs' where "cs = cs' @ [c]" by (metis rev_exhaust)
    then show ?thesis by (simp add: exiting_coupled)
  qed
  with enable_exiting_both [of v] disable_exiting_both [of v] show ?thesis by blast
qed

theorem exiting_controls_coupled_witness:
  "[Enable_exiting, Disable_exiting, Enable_exiting] \<noteq> [] \<and>
   \<not> external_interrupt_exiting_is_enabled (acknowledge_interrupt_on_exit_enable vmcs_reset) \<and>
   acknowledge_interrupt_on_exit_is_enabled (acknowledge_interrupt_on_exit_enable vmcs_reset) \<and>
   external_interrupt_exiting_is_enabled
     (fold exiting [Enable_exiting, Disable_exiting, Enable_exiting] (acknowledge_interrupt_on_exit_enable vmcs_reset)) \<and>
   acknowledge_interrupt_on_exit_is_enabled
     (fold exiting [Enable_exiting, Disable_exiting, Enable_exiting] (acknowledge_interrupt_on_exit_enable vmcs_reset))"
proof -
  let ?cs = "[Enable_exiting, Disable_exiting, Enable_exiting]"
  let ?v = "acknowledge_interrupt_on_exit_enable vmcs_reset"
  have ne: "?cs \<noteq> []" by simp
  have i1: "\<not> external_interrupt_exiting_is_enabled ?v"
    by (simp add: external_interrupt_exiting_is_enabled_def vmcs_reset_def
        acknowledge_interrupt_on_exit_enable_def)
  have i2: "acknowledge_interrupt_on_exit_is_enabled ?v"
    by (simp add: acknowledge_interrupt_on_exit_is_enabled_def acknowledge_interrupt_on_exit_from_def
        acknowledge_interrupt_on_exit_enable_def bit_set_bit_iff)
  have ack: "acknowledge_interrupt_on_exit_is_enabled (fold exiting ?cs ?v)"
    by (simp add: enable_exiting_def acknowledge_interrupt_on_exit_is_enabled_def
        acknowledge_interrupt_on_exit_enable_def bit_set_bit_iff acknowledge_interrupt_on_exit_from_def)
  from exiting_controls_coupled [of ?v ?cs] ne
  have "external_interrupt_exiting_is_enabled (fold exiting ?cs ?v) =
        acknowledge_interrupt_on_exit_is_enabled (fold exiting ?cs ?v)" by blast
  with ack have ext: "external_interrupt_exiting_is_enabled (fold exiting ?cs ?v)" by simp
  from ne i1 i2 ext ack show ?thesis by (intro conjI)
qed

section \<open>Claims about the control register handler\<close>

text \<open>
  C6. On every path the first delegate of the chain is handed the descriptor with the
  defaults of that path: for a write of CR0 or CR4 the value is the emulated read of the
  source register and the shadow is the current read shadow of that register; for a read
  of CR3 the value is the guest CR3 field and the shadow is 0; for a write of CR3 the
  value is the emulated read of the source register and the shadow is 0; in all four
  \<^verbatim>\<open>ignore_write\<close> and \<^verbatim>\<open>ignore_advance\<close> are false.
\<close>

theorem info_t_defaults:
  "(m_wrcr0_handlers s \<noteq> [] \<longrightarrow>
      fst (hd (snd (snd (handle_wrcr0 s vmcs)))) = hd (m_wrcr0_handlers s) \<and>
      fst (snd (hd (snd (snd (handle_wrcr0 s vmcs))))) =
        \<lparr>val = emulate_rdgpr vmcs, shadow = cr0_read_shadow vmcs,
         ignore_write = False, ignore_advance = False\<rparr>) \<and>
   (m_wrcr4_handlers s \<noteq> [] \<longrightarrow>
      fst (hd (snd (snd (handle_wrcr4 s vmcs)))) = hd (m_wrcr4_handlers s) \<and>
      fst (snd (hd (snd (snd (handle_wrcr4 s vmcs))))) =
        \<lparr>val = emulate_rdgpr vmcs, shadow = cr4_read_shadow vmcs,
         ignore_write = False, ignore_advance = False\<rparr>) \<and>
   (m_rdcr3_handlers s \<noteq> [] \<longrightarrow>
      fst (hd (snd (snd (handle_rdcr3 s vmcs)))) = hd (m_rdcr3_handlers s) \<and>
      fst (snd (hd (snd (snd (handle_rdcr3 s vmcs))))) =
        \<lparr>val = guest_cr3 vmcs, shadow = 0, ignore_write = False, ignore_advance = False\<rparr>) \<and>
   (m_wrcr3_handlers s \<noteq> [] \<longrightarrow>
      fst (hd (snd (snd (handle_wrcr3 s vmcs)))) = hd (m_wrcr3_handlers s) \<and>
      fst (snd (hd (snd (snd (handle_wrcr3 s vmcs))))) =
        \<lparr>val = emulate_rdgpr vmcs, shadow = 0, ignore_write = False, ignore_advance = False\<rparr>)"
  by (simp add: handle_wrcr0_calls handle_wrcr4_calls handle_rdcr3_calls handle_wrcr3_calls
      dispatch_first_call)

theorem info_t_defaults_witness:
  "fst (snd (hd (snd (snd (handle_wrcr0
      \<lparr>m_wrcr0_handlers = [\<lambda>v i. (True, v, i)], m_rdcr3_handlers = [\<lambda>v i. (True, v, i)],
       m_wrcr3_handlers = [\<lambda>v i. (True, v, i)], m_wrcr4_handlers = [\<lambda>v i. (True, v, i)]\<rparr>
      (vmcs_reset\<lparr>gr := (\<lambda>r. 5), guest_cr3 := 11, cr0_read_shadow := 7, cr4_read_shadow := 9\<rparr>)))))) =
     \<lparr>val = 5, shadow = 7, ignore_write = False, ignore_advance = False\<rparr> \<and>
   fst (snd (hd (snd (snd (handle_wrcr4
      \<lparr>m_wrcr0_handlers = [\<lambda>v i. (True, v, i)], m_rdcr3_handlers = [\<lambda>v i. (True, v, i)],
       m_wrcr3_handlers = [\<lambda>v i. (True, v, i)], m_wrcr4_handlers = [\<lambda>v i. (True, v, i)]\<rparr>
      (vmcs_reset\<lparr>gr := (\<lambda>r. 5), guest_cr3 := 11, cr0_read_shadow := 7, cr4_read_shadow := 9\<rparr>)))))) =
     \<lparr>val = 5, shadow = 9, ignore_write = False, ignore_advance = False\<rparr> \<and>
   fst (snd (hd (snd (snd (handle_rdcr3
      \<lparr>m_wrcr0_handlers = [\<lambda>v i. (True, v, i)], m_rdcr3_handlers = [\<lambda>v i. (True, v, i)],
       m_wrcr3_handlers = [\<lambda>v i. (True, v, i)], m_wrcr4_handlers = [\<lambda>v i. (True, v, i)]\<rparr>
      (vmcs_reset\<lparr>gr := (\<lambda>r. 5), guest_cr3 := 11, cr0_read_shadow := 7, cr4_read_shadow := 9\<rparr>)))))) =
     \<lparr>val = 11, shadow = 0, ignore_write = False, ignore_advance = False\<rparr> \<and>
   fst (snd (hd (snd (snd (handle_wrcr3
      \<lparr>m_wrcr0_handlers = [\<lambda>v i. (True, v, i)], m_rdcr3_handlers = [\<lambda>v i. (True, v, i)],
       m_wrcr3_handlers = [\<lambda>v i. (True, v, i)], m_wrcr4_handlers = [\<lambda>v i. (True, v, i)]\<rparr>
      (vmcs_reset\<lparr>gr := (\<lambda>r. 5), guest_cr3 := 11, cr0_read_shadow := 7, cr4_read_shadow := 9\<rparr>)))))) =
     \<lparr>val = 5, shadow = 0, ignore_write = False, ignore_advance = False\<rparr>"
proof -
  let ?H = "(\<lambda>v i. (True, v, i)) :: (vmcs_t, cr_info_t) handler_delegate_t"
  let ?s = "\<lparr>m_wrcr0_handlers = [?H], m_rdcr3_handlers = [?H],
             m_wrcr3_handlers = [?H], m_wrcr4_handlers = [?H]\<rparr>"
  let ?v = "vmcs_reset\<lparr>gr := (\<lambda>r. 5), guest_cr3 := 11, cr0_read_shadow := 7, cr4_read_shadow := 9\<rparr>"
  have ne: "m_wrcr0_handlers ?s \<noteq> []" "m_wrcr4_handlers ?s \<noteq> []"
    "m_rdcr3_handlers ?s \<noteq> []" "m_wrcr3_handlers ?s \<noteq> []"
    by simp_all
  have ev: "emulate_rdgpr ?v = 5" "cr0_read_shadow ?v = 7" "cr4_read_shadow ?v = 9" "guest_cr3 ?v = 11"
    by (simp_all add: emulate_rdgpr_def)
  note t = info_t_defaults [of ?s ?v]
  from t ne(1) have a: "fst (snd (hd (snd (snd (handle_wrcr0 ?s ?v))))) = wrcr0_info ?v" by blast
  from t ne(2) have b: "fst (snd (hd (snd (snd (handle_wrcr4 ?s ?v))))) = wrcr4_info ?v" by blast
  from t ne(3) have c: "fst (snd (hd (snd (snd (handle_rdcr3 ?s ?v))))) = rdcr3_info ?v" by blast
  from t ne(4) have d: "fst (snd (hd (snd (snd (handle_wrcr3 ?s ?v))))) = wrcr3_info ?v" by blast
  from a b c d show ?thesis unfolding ev by (intro conjI)
qed

text \<open>
  C7. When the write-CR0 chain claims the exit and leaves the descriptor with value
  \<open>0x80000011\<close>, shadow \<open>0x00000001\<close> and both flags false, \<^verbatim>\<open>handle_wrcr0\<close> returns
  true, the guest CR0 is \<open>0x80000011\<close>, the CR0 read shadow is \<open>0x00000001\<close>, and the
  guest instruction pointer is the one the delegates left plus the length of the
  trapping instruction.
\<close>

theorem wrcr0_apply:
  assumes claim: "dispatch (m_wrcr0_handlers s) vmcs (wrcr0_info vmcs) = (True, vmcs1, info1, calls)"
    and v: "val info1 = 0x80000011" and sh: "shadow info1 = 0x00000001"
    and w: "\<not> ignore_write info1" and a: "\<not> ignore_advance info1"
  shows "fst (handle_wrcr0 s vmcs) \<and>
         guest_cr0 (fst (snd (handle_wrcr0 s vmcs))) = 0x80000011 \<and>
         cr0_read_shadow (fst (snd (handle_wrcr0 s vmcs))) = 0x00000001 \<and>
         guest_rip (fst (snd (handle_wrcr0 s vmcs))) =
           guest_rip vmcs1 + vm_exit_instruction_length vmcs1"
  using assms by (simp add: handle_wrcr0_def advance_def)

theorem wrcr0_apply_witness:
  "fst (handle_wrcr0
      \<lparr>m_wrcr0_handlers =
         [\<lambda>v i. (True, v, i\<lparr>val := 0x80000011, shadow := 0x00000001,
                                ignore_write := False, ignore_advance := False\<rparr>)],
       m_rdcr3_handlers = [], m_wrcr3_handlers = [], m_wrcr4_handlers = []\<rparr>
      (vmcs_reset\<lparr>vm_exit_instruction_length := 3, guest_rip := 0x1000\<rparr>)) \<and>
   guest_cr0 (fst (snd (handle_wrcr0
      \<lparr>m_wrcr0_handlers =
         [\<lambda>v i. (True, v, i\<lparr>val := 0x80000011, shadow := 0x00000001,
                                ignore_write := False, ignore_advance := False\<rparr>)],
       m_rdcr3_handlers = [], m_wrcr3_handlers = [], m_wrcr4_handlers = []\<rparr>
      (vmcs_reset\<lparr>vm_exit_instruction_length := 3, guest_rip := 0x1000\<rparr>)))) = 0x80000011 \<and>
   cr0_read_shadow (fst (snd (handle_wrcr0
      \<lparr>m_wrcr0_handlers =
         [\<lambda>v i. (True, v, i\<lparr>val := 0x80000011, shadow := 0x00000001,
                                ignore_write := False, ignore_advance := False\<rparr>)],
       m_rdcr3_handlers = [], m_wrcr3_handlers = [], m_wrcr4_handlers = []\<rparr>
      (vmcs_reset\<lparr>vm_exit_instruction_length := 3, guest_rip := 0x1000\<rparr>)))) = 0x00000001 \<and>
   guest_rip (fst (snd (handle_wrcr0
      \<lparr>m_wrcr0_handlers =
         [\<lambda>v i. (True, v, i\<lparr>val := 0x80000011, shadow := 0x00000001,
                                ignore_write := False, ignore_advance := False\<rparr>)],
       m_rdcr3_handlers = [], m_wrcr3_handlers = [], m_wrcr4_handlers = []\<rparr>
      (vmcs_reset\<lparr>vm_exit_instruction_length := 3, guest_rip := 0x1000\<rparr>)))) = 0x1003"
proof -
  let ?H = "(\<lambda>v i. (True, v, i\<lparr>val := 0x80000011, shadow := 0x00000001,
               ignore_write := False, ignore_advance := False\<rparr>))
            :: (vmcs_t, cr_info_t) handler_delegate_t"
  let ?s = "\<lparr>m_wrcr0_handlers = [?H], m_rdcr3_handlers = [], m_wrcr3_handlers = [],
             m_wrcr4_handlers = []\<rparr>"
  let ?v = "vmcs_reset\<lparr>vm_exit_instruction_length := 3, guest_rip := 0x1000\<rparr>"
  let ?i = "\<lparr>val = 0x80000011, shadow = 0x00000001, ignore_write = False, ignore_advance = False\<rparr>"
  have claim: "dispatch (m_wrcr0_handlers ?s) ?v (wrcr0_info ?v) =
      (True, ?v, ?i, [(?H, wrcr0_info ?v, True)])"
    by simp
  have rip: "guest_rip ?v + vm_exit_instruction_length ?v = 0x1003"
    by simp
  from wrcr0_apply [OF claim] rip show ?thesis by simp
qed

text \<open>
  C8. When a chain claims the exit and leaves \<^verbatim>\<open>ignore_write\<close> set, the path returns true
  and writes nothing back: the machine is the one the delegates left, apart from the
  instruction pointer, which is advanced unless \<^verbatim>\<open>ignore_advance\<close> is set. The control
  registers, the read shadows and the general-purpose registers are untouched by the
  advance. This holds on all four paths.
\<close>

theorem ignore_write_honoured:
  "(dispatch (m_wrcr0_handlers s) vmcs (wrcr0_info vmcs) = (True, vmcs1, info1, calls) \<and>
    ignore_write info1 \<longrightarrow>
      handle_wrcr0 s vmcs =
        (True, if ignore_advance info1 then vmcs1 else advance vmcs1, calls)) \<and>
   (dispatch (m_wrcr4_handlers s) vmcs (wrcr4_info vmcs) = (True, vmcs1, info1, calls) \<and>
    ignore_write info1 \<longrightarrow>
      handle_wrcr4 s vmcs =
        (True, if ignore_advance info1 then vmcs1 else advance vmcs1, calls)) \<and>
   (dispatch (m_wrcr3_handlers s) vmcs (wrcr3_info vmcs) = (True, vmcs1, info1, calls) \<and>
    ignore_write info1 \<longrightarrow>
      handle_wrcr3 s vmcs =
        (True, if ignore_advance info1 then vmcs1 else advance vmcs1, calls)) \<and>
   (dispatch (m_rdcr3_handlers s) vmcs (rdcr3_info vmcs) = (True, vmcs1, info1, calls) \<and>
    ignore_write info1 \<longrightarrow>
      handle_rdcr3 s vmcs =
        (True, if ignore_advance info1 then vmcs1 else advance vmcs1, calls)) \<and>
   (advance vmcs1)\<lparr>guest_rip := guest_rip vmcs1\<rparr> = vmcs1 \<and>
   guest_cr0 (advance vmcs1) = guest_cr0 vmcs1 \<and>
   guest_cr3 (advance vmcs1) = guest_cr3 vmcs1 \<and>
   guest_cr4 (advance vmcs1) = guest_cr4 vmcs1 \<and>
   cr0_read_shadow (advance vmcs1) = cr0_read_shadow vmcs1 \<and>
   cr4_read_shadow (advance vmcs1) = cr4_read_shadow vmcs1 \<and>
   gr (advance vmcs1) = gr vmcs1"
  by (simp add: handle_wrcr0_def handle_wrcr4_def handle_wrcr3_def handle_rdcr3_def advance_def)

theorem ignore_write_honoured_witness:
  "handle_wrcr0
      \<lparr>m_wrcr0_handlers = [\<lambda>v i. (True, v, i\<lparr>val := 0x80000011, shadow := 1, ignore_write := True\<rparr>)],
       m_rdcr3_handlers = [\<lambda>v i. (True, v, i\<lparr>val := 0x80000011, shadow := 1, ignore_write := True\<rparr>)],
       m_wrcr3_handlers = [\<lambda>v i. (True, v, i\<lparr>val := 0x80000011, shadow := 1, ignore_write := True\<rparr>)],
       m_wrcr4_handlers = [\<lambda>v i. (True, v, i\<lparr>val := 0x80000011, shadow := 1, ignore_write := True\<rparr>)]\<rparr>
      vmcs_reset =
     (True, advance vmcs_reset,
      [((\<lambda>v i. (True, v, i\<lparr>val := 0x80000011, shadow := 1, ignore_write := True\<rparr>)),
        wrcr0_info vmcs_reset, True)]) \<and>
   handle_wrcr4
      \<lparr>m_wrcr0_handlers = [\<lambda>v i. (True, v, i\<lparr>val := 0x80000011, shadow := 1, ignore_write := True\<rparr>)],
       m_rdcr3_handlers = [\<lambda>v i. (True, v, i\<lparr>val := 0x80000011, shadow := 1, ignore_write := True\<rparr>)],
       m_wrcr3_handlers = [\<lambda>v i. (True, v, i\<lparr>val := 0x80000011, shadow := 1, ignore_write := True\<rparr>)],
       m_wrcr4_handlers = [\<lambda>v i. (True, v, i\<lparr>val := 0x80000011, shadow := 1, ignore_write := True\<rparr>)]\<rparr>
      vmcs_reset =
     (True, advance vmcs_reset,
      [((\<lambda>v i. (True, v, i\<lparr>val := 0x80000011, shadow := 1, ignore_write := True\<rparr>)),
        wrcr4_info vmcs_reset, True)]) \<and>
   handle_wrcr3
      \<lparr>m_wrcr0_handlers = [\<lambda>v i. (True, v, i\<lparr>val := 0x80000011, shadow := 1, ignore_write := True\<rparr>)],
       m_rdcr3_handlers = [\<lambda>v i. (True, v, i\<lparr>val := 0x80000011, shadow := 1, ignore_write := True\<rparr>)],
       m_wrcr3_handlers = [\<lambda>v i. (True, v, i\<lparr>val := 0x80000011, shadow := 1, ignore_write := True\<rparr>)],
       m_wrcr4_handlers = [\<lambda>v i. (True, v, i\<lparr>val := 0x80000011, shadow := 1, ignore_write := True\<rparr>)]\<rparr>
      vmcs_reset =
     (True, advance vmcs_reset,
      [((\<lambda>v i. (True, v, i\<lparr>val := 0x80000011, shadow := 1, ignore_write := True\<rparr>)),
        wrcr3_info vmcs_reset, True)]) \<and>
   handle_rdcr3
      \<lparr>m_wrcr0_handlers = [\<lambda>v i. (True, v, i\<lparr>val := 0x80000011, shadow := 1, ignore_write := True\<rparr>)],
       m_rdcr3_handlers = [\<lambda>v i. (True, v, i\<lparr>val := 0x80000011, shadow := 1, ignore_write := True\<rparr>)],
       m_wrcr3_handlers = [\<lambda>v i. (True, v, i\<lparr>val := 0x80000011, shadow := 1, ignore_write := True\<rparr>)],
       m_wrcr4_handlers = [\<lambda>v i. (True, v, i\<lparr>val := 0x80000011, shadow := 1, ignore_write := True\<rparr>)]\<rparr>
      vmcs_reset =
     (True, advance vmcs_reset,
      [((\<lambda>v i. (True, v, i\<lparr>val := 0x80000011, shadow := 1, ignore_write := True\<rparr>)),
        rdcr3_info vmcs_reset, True)]) \<and>
   guest_cr0 (advance vmcs_reset) = 0 \<and> gr (advance vmcs_reset) = (\<lambda>r. 0)"
proof -
  let ?H = "(\<lambda>v i. (True, v, i\<lparr>val := 0x80000011, shadow := 1, ignore_write := True\<rparr>))
            :: (vmcs_t, cr_info_t) handler_delegate_t"
  let ?s = "\<lparr>m_wrcr0_handlers = [?H], m_rdcr3_handlers = [?H], m_wrcr3_handlers = [?H],
             m_wrcr4_handlers = [?H]\<rparr>"
  let ?v = "vmcs_reset"
  let ?i0 = "(wrcr0_info ?v)\<lparr>val := 0x80000011, shadow := 1, ignore_write := True\<rparr>"
  let ?i4 = "(wrcr4_info ?v)\<lparr>val := 0x80000011, shadow := 1, ignore_write := True\<rparr>"
  let ?i3 = "(wrcr3_info ?v)\<lparr>val := 0x80000011, shadow := 1, ignore_write := True\<rparr>"
  let ?ir = "(rdcr3_info ?v)\<lparr>val := 0x80000011, shadow := 1, ignore_write := True\<rparr>"
  have d0: "dispatch (m_wrcr0_handlers ?s) ?v (wrcr0_info ?v) =
      (True, ?v, ?i0, [(?H, wrcr0_info ?v, True)]) \<and> ignore_write ?i0"
    and d4: "dispatch (m_wrcr4_handlers ?s) ?v (wrcr4_info ?v) =
      (True, ?v, ?i4, [(?H, wrcr4_info ?v, True)]) \<and> ignore_write ?i4"
    and d3: "dispatch (m_wrcr3_handlers ?s) ?v (wrcr3_info ?v) =
      (True, ?v, ?i3, [(?H, wrcr3_info ?v, True)]) \<and> ignore_write ?i3"
    and dr: "dispatch (m_rdcr3_handlers ?s) ?v (rdcr3_info ?v) =
      (True, ?v, ?ir, [(?H, rdcr3_info ?v, True)]) \<and> ignore_write ?ir"
    by simp_all
  have ia: "\<not> ignore_advance ?i0" "\<not> ignore_advance ?i4" "\<not> ignore_advance ?i3"
    "\<not> ignore_advance ?ir"
    by simp_all
  from ignore_write_honoured [of ?s ?v ?v ?i0 "[(?H, wrcr0_info ?v, True)]"] d0
  have "handle_wrcr0 ?s ?v =
      (True, if ignore_advance ?i0 then ?v else advance ?v, [(?H, wrcr0_info ?v, True)])"
    by blast
  with ia(1) have h0: "handle_wrcr0 ?s ?v = (True, advance ?v, [(?H, wrcr0_info ?v, True)])"
    by simp
  from ignore_write_honoured [of ?s ?v ?v ?i4 "[(?H, wrcr4_info ?v, True)]"] d4
  have "handle_wrcr4 ?s ?v =
      (True, if ignore_advance ?i4 then ?v else advance ?v, [(?H, wrcr4_info ?v, True)])"
    by blast
  with ia(2) have h4: "handle_wrcr4 ?s ?v = (True, advance ?v, [(?H, wrcr4_info ?v, True)])"
    by simp
  from ignore_write_honoured [of ?s ?v ?v ?i3 "[(?H, wrcr3_info ?v, True)]"] d3
  have "handle_wrcr3 ?s ?v =
      (True, if ignore_advance ?i3 then ?v else advance ?v, [(?H, wrcr3_info ?v, True)])"
    by blast
  with ia(3) have h3: "handle_wrcr3 ?s ?v = (True, advance ?v, [(?H, wrcr3_info ?v, True)])"
    by simp
  from ignore_write_honoured [of ?s ?v ?v ?ir "[(?H, rdcr3_info ?v, True)]"] dr
  have "handle_rdcr3 ?s ?v =
      (True, if ignore_advance ?ir then ?v else advance ?v, [(?H, rdcr3_info ?v, True)])"
    by blast
  with ia(4) have hr: "handle_rdcr3 ?s ?v = (True, advance ?v, [(?H, rdcr3_info ?v, True)])"
    by simp
  have regs: "guest_cr0 (advance ?v) = 0" "gr (advance ?v) = (\<lambda>r. 0)"
    by (simp_all add: advance_def vmcs_reset_def)
  from h0 h4 h3 hr regs show ?thesis by (intro conjI)
qed

end
